theory Spec2Isabelle
  imports Main
begin

section \<open>The constants of \<^verbatim>\<open>tasks/libs/issue/model/constants.py\<close>\<close>

text \<open>
  The module is three top-level assignments and nothing else: two string literals and one
  tuple literal of 41 string literals. Python's \<^verbatim>\<open>str\<close> is modelled as \<^typ>\<open>string\<close>
  (every character of the file is ASCII, so one \<^typ>\<open>char\<close> is one code point), and the
  tuple as a list, in the order of the source.
\<close>

definition MODEL :: string where
  "MODEL = ''/issue_auto_assign_model''"

definition BASE_MODEL :: string where
  "BASE_MODEL = ''distilbert-base-uncased-finetuned-sst-2-english''"

definition TEAMS :: "string list" where
  "TEAMS = [
    ''container-ecosystems'',
    ''windows-agent'',
    ''remote-config'',
    ''container-platform'',
    ''documentation'',
    ''agent-security'',
    ''container-app'',
    ''agent-all'',
    ''processes'',
    ''agent-platform'',
    ''agent-release-management'',
    ''networks'',
    ''ebpf-platform'',
    ''agent-apm'',
    ''single-machine-performance'',
    ''agent-e2e-testing'',
    ''agent-developer-tools'',
    ''triage'',
    ''windows-kernel-integrations'',
    ''container-integrations'',
    ''sdlc-security'',
    ''opentelemetry'',
    ''universal-service-monitoring'',
    ''agent-build-and-releases'',
    ''agent-configuration'',
    ''agent-runtimes'',
    ''agent-integrations'',
    ''agent-metric-pipelines'',
    ''agent-log-pipelines'',
    ''platform-integrations'',
    ''agent-ci-experience'',
    ''asm-go'',
    ''agent-cspm'',
    ''debugger'',
    ''database-monitoring'',
    ''network-device-monitoring'',
    ''serverless'',
    ''apm-onboarding'',
    ''fleet'',
    ''agent-processing-and-routing'',
    ''agent-discovery''
  ]"

subsection \<open>The module as a program\<close>

text \<open>
  Python values the module builds: a \<^verbatim>\<open>str\<close> and a \<^verbatim>\<open>tuple\<close> of values. The right-hand
  side of each assignment is a literal, so a statement carries the value it binds.
\<close>

datatype pyval = Str string | Tuple "pyval list"

datatype stmt = Assign string pyval

datatype error = AttributeError string

text \<open>
  The module's global namespace, a Python dict from names to values. The names the
  interpreter adds by itself (\<^verbatim>\<open>__name__\<close>, \<^verbatim>\<open>__doc__\<close>, ...) are not part of the source
  and are left out; they all begin with an underscore.
\<close>

type_synonym namespace = "string \<rightharpoonup> pyval"

primrec target :: "stmt \<Rightarrow> string" where
  "target (Assign n v) = n"

primrec exec_stmt :: "namespace \<Rightarrow> stmt \<Rightarrow> namespace" where
  "exec_stmt ns (Assign n v) = ns(n \<mapsto> v)"

definition exec_module :: "stmt list \<Rightarrow> namespace \<Rightarrow> namespace" where
  "exec_module body ns = foldl exec_stmt ns body"

text \<open>The body of \<^verbatim>\<open>constants.py\<close>: its three statements, in source order.\<close>

definition constants_py :: "stmt list" where
  "constants_py =
    [Assign ''MODEL'' (Str MODEL),
     Assign ''BASE_MODEL'' (Str BASE_MODEL),
     Assign ''TEAMS'' (Tuple (map Str TEAMS))]"

text \<open>
  The namespace once the first \<open>k\<close> statements have run, starting from no user binding,
  and the namespace of the loaded module.
\<close>

definition state_after :: "nat \<Rightarrow> namespace" where
  "state_after k = exec_module (take k constants_py) Map.empty"

definition module_globals :: namespace where
  "module_globals = exec_module constants_py Map.empty"

text \<open>
  Reading a module attribute, with the namespace passed through: a bound name gives its
  value, an unbound one raises \<^verbatim>\<open>AttributeError\<close>. \<open>reads\<close> performs a sequence of reads,
  each in the state the previous one left.
\<close>

definition read :: "string \<Rightarrow> namespace \<Rightarrow> (error + pyval) \<times> namespace" where
  "read n ns = (case ns n of None \<Rightarrow> Inl (AttributeError n) | Some v \<Rightarrow> Inr v, ns)"

primrec reads :: "string list \<Rightarrow> namespace \<Rightarrow> (error + pyval) list \<times> namespace" where
  "reads [] ns = ([], ns)"
| "reads (n # rest) ns =
     (let (v, ns1) = read n ns; (vs, ns2) = reads rest ns1 in (v # vs, ns2))"

text \<open>
  A module without \<^verbatim>\<open>__all__\<close> exports the names that do not begin with an underscore.
\<close>

definition is_public :: "string \<Rightarrow> bool" where
  "is_public n = (case n of [] \<Rightarrow> True | c # _ \<Rightarrow> c \<noteq> CHR ''_'')"

subsection \<open>Predicates on strings\<close>

text \<open>
  \<^verbatim>\<open>str.isspace\<close> on one character, for the code points below 256: tab to carriage
  return, the four separators U+001C to U+001F, the space, U+0085 and U+00A0.
  \<^verbatim>\<open>str.strip()\<close> removes the whitespace at both ends.
\<close>

definition isspace :: "char \<Rightarrow> bool" where
  "isspace c = (let n = (of_char c :: nat) in
     (9 \<le> n \<and> n \<le> 13) \<or> (28 \<le> n \<and> n \<le> 32) \<or> n = 133 \<or> n = 160)"

definition strip :: "string \<Rightarrow> string" where
  "strip s = rev (dropWhile isspace (rev (dropWhile isspace s)))"

text \<open>
  The characters of a label: \<^verbatim>\<open>a\<close> to \<^verbatim>\<open>z\<close>, \<^verbatim>\<open>0\<close> to \<^verbatim>\<open>9\<close>, and the hyphen.
  \<open>startswith\<close> and \<open>endswith\<close> are Python's, for a single character; both are false on
  the empty string.
\<close>

definition label_char :: "char \<Rightarrow> bool" where
  "label_char c = (let n = (of_char c :: nat) in
     (97 \<le> n \<and> n \<le> 122) \<or> (48 \<le> n \<and> n \<le> 57) \<or> c = CHR ''-'')"

definition startswith :: "string \<Rightarrow> char \<Rightarrow> bool" where
  "startswith s c = (case s of [] \<Rightarrow> False | x # _ \<Rightarrow> x = c)"

definition endswith :: "string \<Rightarrow> char \<Rightarrow> bool" where
  "endswith s c = startswith (rev s) c"

section \<open>Auxiliary facts\<close>

lemma TEAMS_distinct: "distinct TEAMS"
  by (simp add: TEAMS_def)

lemma TEAMS_all_stripped:
  "list_all (\<lambda>t. 0 < length t \<and> \<not> isspace (hd t) \<and> \<not> isspace (last t) \<and> strip t = t) TEAMS"
  by (simp add: TEAMS_def isspace_def strip_def)

lemma TEAMS_all_label_chars:
  "list_all (\<lambda>t. list_all label_char t \<and> \<not> startswith t CHR ''-'' \<and> \<not> endswith t CHR ''-'') TEAMS"
  by (simp add: TEAMS_def label_char_def startswith_def endswith_def)

lemma module_globals_eq:
  "module_globals =
     [''MODEL'' \<mapsto> Str MODEL, ''BASE_MODEL'' \<mapsto> Str BASE_MODEL,
      ''TEAMS'' \<mapsto> Tuple (map Str TEAMS)]"
  by (simp add: module_globals_def exec_module_def constants_py_def)

text \<open>A read never changes the namespace, so every read sees the starting state.\<close>

lemma reads_eq: "reads names ns = (map (\<lambda>n. fst (read n ns)) names, ns)"
  by (induction names) (simp_all add: read_def)

lemma state_after_TEAMS:
  "state_after k ''TEAMS'' = (if k < 3 then None else Some (Tuple (map Str TEAMS)))"
proof -
  consider "k = 0" | "k = 1" | "k = 2" | "3 \<le> k" by linarith
  then show ?thesis
  proof cases
    case 1
    then show ?thesis by (simp add: state_after_def exec_module_def)
  next
    case 2
    then show ?thesis by (simp add: state_after_def exec_module_def constants_py_def)
  next
    case 3
    then show ?thesis
      by (simp add: state_after_def exec_module_def constants_py_def numeral_2_eq_2)
  next
    case 4
    then show ?thesis by (simp add: state_after_def exec_module_def constants_py_def)
  qed
qed

section \<open>Claims\<close>

text \<open>C1: the TEAMS tuple has exactly 41 entries.\<close>

theorem TEAMS_length: "length TEAMS = 41"
  by (simp add: TEAMS_def)

text \<open>
  C2: no two entries of TEAMS are equal: the entries at two different positions of the
  tuple differ.
\<close>

theorem TEAMS_no_duplicates:
  assumes "i < length TEAMS" and "j < length TEAMS" and "i \<noteq> j"
  shows "TEAMS ! i \<noteq> TEAMS ! j"
  using assms TEAMS_distinct by (simp add: nth_eq_iff_index_eq)

theorem TEAMS_no_duplicates_witness:
  "(0::nat) < length TEAMS \<and> (1::nat) < length TEAMS \<and> (0::nat) \<noteq> 1
   \<and> TEAMS ! 0 = ''container-ecosystems'' \<and> TEAMS ! 1 = ''windows-agent''
   \<and> TEAMS ! 0 \<noteq> TEAMS ! 1"
proof -
  have a: "(0::nat) < length TEAMS" and b: "(1::nat) < length TEAMS"
    by (simp_all add: TEAMS_def)
  have c: "(0::nat) \<noteq> 1" by simp
  have "TEAMS ! 0 \<noteq> TEAMS ! 1" by (rule TEAMS_no_duplicates [OF a b c])
  moreover have "TEAMS ! 0 = ''container-ecosystems''" "TEAMS ! 1 = ''windows-agent''"
    by (simp_all add: TEAMS_def)
  ultimately show ?thesis using a b c by blast
qed

text \<open>
  C3: every entry of TEAMS is a non-empty string whose first and last characters are not
  whitespace, so that stripping it leaves it unchanged.
\<close>

theorem TEAMS_entries_stripped:
  assumes "t \<in> set TEAMS"
  shows "0 < length t \<and> \<not> isspace (hd t) \<and> \<not> isspace (last t) \<and> strip t = t"
  using assms TEAMS_all_stripped by (simp add: list_all_iff)

theorem TEAMS_entries_stripped_witness:
  "''networks'' \<in> set TEAMS \<and> 0 < length ''networks''
   \<and> \<not> isspace (hd ''networks'') \<and> \<not> isspace (last ''networks'')
   \<and> strip ''networks'' = ''networks''"
proof -
  have a: "''networks'' \<in> set TEAMS" by (simp add: TEAMS_def)
  from TEAMS_entries_stripped [OF a] a show ?thesis by blast
qed

text \<open>C4: MODEL and BASE_MODEL are both non-empty strings.\<close>

theorem model_strings_nonempty: "0 < length MODEL \<and> 0 < length BASE_MODEL"
  by (simp add: MODEL_def BASE_MODEL_def)

text \<open>
  C5: MODEL is exactly \<^verbatim>\<open>/issue_auto_assign_model\<close> and BASE_MODEL is exactly
  \<^verbatim>\<open>distilbert-base-uncased-finetuned-sst-2-english\<close>, as constants and as what a read of
  the loaded module returns.
\<close>

theorem model_strings_exact:
  "MODEL = ''/issue_auto_assign_model''
   \<and> BASE_MODEL = ''distilbert-base-uncased-finetuned-sst-2-english''
   \<and> fst (read ''MODEL'' module_globals) = Inr (Str ''/issue_auto_assign_model'')
   \<and> fst (read ''BASE_MODEL'' module_globals)
       = Inr (Str ''distilbert-base-uncased-finetuned-sst-2-english'')"
  by (simp add: read_def module_globals_eq) (simp add: MODEL_def BASE_MODEL_def)

text \<open>
  C6: TEAMS is defined once and never mutated. The module has no function or class; what
  it runs is its three assignments, and afterwards its importers read it. Exactly one
  statement binds TEAMS; in every state of the load TEAMS is either not bound yet (before
  the third statement) or bound to the fixed sequence; and after any sequence of reads of
  the loaded module TEAMS is still bound to that sequence, same length, entries and order.
\<close>

theorem TEAMS_never_mutated:
  "length (filter (\<lambda>s. target s = ''TEAMS'') constants_py) = 1
   \<and> (\<forall>k. state_after k ''TEAMS'' = (if k < 3 then None else Some (Tuple (map Str TEAMS))))
   \<and> (\<forall>names. snd (reads names module_globals) ''TEAMS'' = Some (Tuple (map Str TEAMS)))"
  by (simp add: state_after_TEAMS reads_eq module_globals_eq) (simp add: constants_py_def)

text \<open>
  C7: constant access is stable across reads: in any sequence of reads, from any
  namespace, two reads of the same name return equal values, and the namespace is left
  as it was.
\<close>

theorem reads_stable:
  assumes "i < length names" and "j < length names" and "names ! i = names ! j"
  shows "fst (reads names ns) ! i = fst (reads names ns) ! j \<and> snd (reads names ns) = ns"
  using assms by (simp add: reads_eq)

theorem reads_stable_witness:
  "(0::nat) < length [''MODEL'', ''TEAMS'', ''BASE_MODEL'', ''MODEL'']
   \<and> (3::nat) < length [''MODEL'', ''TEAMS'', ''BASE_MODEL'', ''MODEL'']
   \<and> [''MODEL'', ''TEAMS'', ''BASE_MODEL'', ''MODEL''] ! 0
       = [''MODEL'', ''TEAMS'', ''BASE_MODEL'', ''MODEL''] ! 3
   \<and> fst (reads [''MODEL'', ''TEAMS'', ''BASE_MODEL'', ''MODEL''] module_globals) ! 0
       = fst (reads [''MODEL'', ''TEAMS'', ''BASE_MODEL'', ''MODEL''] module_globals) ! 3
   \<and> snd (reads [''MODEL'', ''TEAMS'', ''BASE_MODEL'', ''MODEL''] module_globals)
       = module_globals"
proof -
  let ?names = "[''MODEL'', ''TEAMS'', ''BASE_MODEL'', ''MODEL'']"
  have a: "(0::nat) < length ?names" and b: "(3::nat) < length ?names" by simp_all
  have c: "?names ! 0 = ?names ! 3" by simp
  from reads_stable [OF a b c, of module_globals] a b c show ?thesis by blast
qed

text \<open>
  C8: the module exposes exactly three values: the names bound in the loaded module are
  MODEL, BASE_MODEL and TEAMS and no other, all three are public, MODEL and BASE_MODEL are
  bound to strings and TEAMS to a tuple of strings in source order.
\<close>

theorem module_exposes_three:
  "dom module_globals = {''MODEL'', ''BASE_MODEL'', ''TEAMS''}
   \<and> is_public ''MODEL'' \<and> is_public ''BASE_MODEL'' \<and> is_public ''TEAMS''
   \<and> module_globals ''MODEL'' = Some (Str MODEL)
   \<and> module_globals ''BASE_MODEL'' = Some (Str BASE_MODEL)
   \<and> module_globals ''TEAMS'' = Some (Tuple (map Str TEAMS))"
  by (auto simp add: module_globals_eq is_public_def)

text \<open>
  C9: every entry of TEAMS consists only of lowercase ASCII letters, decimal digits and
  hyphens, and neither begins nor ends with a hyphen.
\<close>

theorem TEAMS_entries_charset:
  assumes "t \<in> set TEAMS"
  shows "list_all label_char t \<and> \<not> startswith t CHR ''-'' \<and> \<not> endswith t CHR ''-''"
  using assms TEAMS_all_label_chars by (simp add: list_all_iff)

theorem TEAMS_entries_charset_witness:
  "''agent-e2e-testing'' \<in> set TEAMS
   \<and> list_all label_char ''agent-e2e-testing''
   \<and> \<not> startswith ''agent-e2e-testing'' CHR ''-''
   \<and> \<not> endswith ''agent-e2e-testing'' CHR ''-''"
proof -
  have a: "''agent-e2e-testing'' \<in> set TEAMS" by (simp add: TEAMS_def)
  from TEAMS_entries_charset [OF a] a show ?thesis by blast
qed

text \<open>
  C10: TEAMS is a fixed ordered sequence, bound as a tuple, whose first entry is
  \<^verbatim>\<open>container-ecosystems\<close> and whose last, the 41st, is \<^verbatim>\<open>agent-discovery\<close>.
\<close>

theorem TEAMS_first_last:
  "length TEAMS = 41
   \<and> TEAMS ! 0 = ''container-ecosystems''
   \<and> TEAMS ! 40 = ''agent-discovery''
   \<and> last TEAMS = ''agent-discovery''
   \<and> module_globals ''TEAMS'' = Some (Tuple (map Str TEAMS))"
  by (simp add: module_globals_eq) (simp add: TEAMS_def)

end
